theory Spec2Isabelle
  imports Complex_Main
begin

section \<open>JavaScript values\<close>

text \<open>
  The retry callback and the catch block of \<open>fetchWithLog\<close> probe error objects by
  property name, so errors are modelled as untyped JavaScript values. A number is either
  \<open>NaN\<close> or a finite number; finite numbers are exact reals (rounding and overflow of
  IEEE doubles are not part of the model). An object is the list of the properties that
  the \<open>in\<close> operator sees on it.
\<close>

datatype jsnum = NaN | Num real

datatype jsval =
    JUndefined
  | JNull
  | JBool bool
  | JNumber jsnum
  | JString string
  | JObject "(string \<times> jsval) list"

text \<open>The \<open>typeof\<close> operator (\<open>typeof null\<close> is \<open>object\<close>).\<close>

fun typeof :: "jsval \<Rightarrow> string" where
  "typeof JUndefined = ''undefined''"
| "typeof JNull = ''object''"
| "typeof (JBool b) = ''boolean''"
| "typeof (JNumber n) = ''number''"
| "typeof (JString s) = ''string''"
| "typeof (JObject ps) = ''object''"

text \<open>Truthiness, as tested by \<open>if (v)\<close>.\<close>

fun truthy :: "jsval \<Rightarrow> bool" where
  "truthy JUndefined = False"
| "truthy JNull = False"
| "truthy (JBool b) = b"
| "truthy (JNumber NaN) = False"
| "truthy (JNumber (Num x)) = (x \<noteq> 0)"
| "truthy (JString s) = (s \<noteq> [])"
| "truthy (JObject ps) = True"

text \<open>\<open>k in v\<close> on an object \<open>v\<close>.\<close>

fun in_op :: "string \<Rightarrow> jsval \<Rightarrow> bool" where
  "in_op k (JObject ps) = (map_of ps k \<noteq> None)"
| "in_op k v = False"

text \<open>
  Property read \<open>v.k\<close> (and \<open>v?.[k]\<close>): a property that is absent reads as
  \<open>undefined\<close>. The plain read \<open>v.k\<close> on \<open>null\<close> or \<open>undefined\<close> raises a
  \<open>TypeError\<close>; the one place of the program that can reach it handles that case
  before calling \<open>prop_of\<close>.
\<close>

fun prop_of :: "jsval \<Rightarrow> string \<Rightarrow> jsval" where
  "prop_of (JObject ps) k = (case map_of ps k of None \<Rightarrow> JUndefined | Some v \<Rightarrow> v)"
| "prop_of v k = JUndefined"

text \<open>\<open>Number.isNaN\<close>, \<open>a * b\<close>, \<open>a - b\<close> and \<open>a > b\<close> on numbers.\<close>

fun isNaN :: "jsnum \<Rightarrow> bool" where
  "isNaN NaN = True"
| "isNaN (Num x) = False"

fun js_times :: "jsnum \<Rightarrow> jsnum \<Rightarrow> jsnum" where
  "js_times (Num x) (Num y) = Num (x * y)"
| "js_times a b = NaN"

fun js_minus :: "jsnum \<Rightarrow> jsnum \<Rightarrow> jsnum" where
  "js_minus (Num x) (Num y) = Num (x - y)"
| "js_minus a b = NaN"

fun js_greater :: "jsnum \<Rightarrow> jsnum \<Rightarrow> bool" where
  "js_greater (Num x) (Num y) = (x > y)"
| "js_greater a b = False"

text \<open>\<open>Math.min(a, b)\<close> with a finite second argument.\<close>

fun Math_min :: "jsnum \<Rightarrow> real \<Rightarrow> jsnum" where
  "Math_min (Num x) y = Num (min x y)"
| "Math_min NaN y = NaN"

text \<open>
  The built-ins of the runtime that the program calls and that are not part of it: the
  conversion \<open>Number(v)\<close>, the parse \<open>new Date(v).getTime()\<close> (\<open>NaN\<close> for an invalid
  date) and the clock \<open>Date.now()\<close>.
\<close>

record runtime =
  Number :: "jsval \<Rightarrow> jsnum"
  Date_getTime :: "jsval \<Rightarrow> jsnum"
  Date_now :: real

section \<open>The retry callback\<close>

text \<open>
  \<open>retryOptions\<close> as the callback destructures it: every field may be \<open>undefined\<close>
  (\<open>None\<close>), the numbers that are given are finite, and \<open>methods\<close> is tested with
  \<open>Array.isArray\<close>.
\<close>

datatype methods_value = Methods_array "string list" | Methods_not_array

record retry_options =
  maxRetries :: "real option"
  minTimeout :: "real option"
  maxTimeout :: "real option"
  timeoutFactor :: "real option"
  methods :: "methods_value option"

text \<open>
  The second argument of the callback, \<open>{ state, opts }\<close>; the property \<open>method\<close> of
  \<open>opts\<close> is the field \<open>http_method\<close>.
\<close>

record retry_state =
  counter :: int

record dispatch_opts =
  http_method :: string
  retryOptions :: "retry_options option"

text \<open>
  What the callback does with its continuation \<open>cb\<close>: \<open>Fail err\<close> is the immediate call
  \<open>cb(err)\<close>, \<open>Retry_after t\<close> is \<open>setTimeout(() => cb(null), t)\<close>.
\<close>

datatype retry_decision = Fail jsval | Retry_after jsnum

definition calculateRetryAfterHeader :: "runtime \<Rightarrow> jsval \<Rightarrow> jsnum" where
  "calculateRetryAfterHeader rt retryAfter =
     (let current = Date_now rt
      in js_minus (Date_getTime rt retryAfter) (Num current))"

text \<open>The value of the local variable \<open>retryAfter\<close> after lines 85 to 92.\<close>

definition retryAfter_value :: "runtime \<Rightarrow> jsval \<Rightarrow> jsnum" where
  "retryAfter_value rt headers =
     (let retryAfterHeader = prop_of headers ''retry-after''
      in if truthy retryAfterHeader
         then (let retryAfter = Number rt retryAfterHeader
               in if isNaN retryAfter
                  then calculateRetryAfterHeader rt retryAfterHeader
                  else js_times retryAfter (Num 1000))
         else Num (- 1))"

text \<open>
  The destructuring with defaults of lines 52 to 60:
  \<open>const { method, retryOptions = {} } = opts\<close> and
  \<open>const { maxRetries = 5, minTimeout = 500, ... } = retryOptions\<close>.
\<close>

definition retryOptions_or_default :: "dispatch_opts \<Rightarrow> retry_options" where
  "retryOptions_or_default opts =
     (case retryOptions opts of
        None \<Rightarrow> \<lparr>maxRetries = None, minTimeout = None, maxTimeout = None,
                  timeoutFactor = None, methods = None\<rparr>
      | Some ro \<Rightarrow> ro)"

definition maxRetries_or_default :: "retry_options \<Rightarrow> real" where
  "maxRetries_or_default ro = (case maxRetries ro of None \<Rightarrow> 5 | Some v \<Rightarrow> v)"

definition minTimeout_or_default :: "retry_options \<Rightarrow> real" where
  "minTimeout_or_default ro = (case minTimeout ro of None \<Rightarrow> 500 | Some v \<Rightarrow> v)"

definition maxTimeout_or_default :: "retry_options \<Rightarrow> real" where
  "maxTimeout_or_default ro = (case maxTimeout ro of None \<Rightarrow> 30 * 1000 | Some v \<Rightarrow> v)"

definition timeoutFactor_or_default :: "retry_options \<Rightarrow> real" where
  "timeoutFactor_or_default ro = (case timeoutFactor ro of None \<Rightarrow> 2 | Some v \<Rightarrow> v)"

definition methods_or_default :: "retry_options \<Rightarrow> methods_value" where
  "methods_or_default ro =
     (case methods ro of
        None \<Rightarrow> Methods_array [''GET'', ''HEAD'', ''OPTIONS'', ''PUT'', ''DELETE'', ''TRACE'']
      | Some v \<Rightarrow> v)"

text \<open>
  The callback \<open>retry(err, { state, opts }, cb)\<close> given to \<open>interceptors.retry\<close>; its
  first three constants (lines 33 to 35) are \<open>statusCode_of\<close>, \<open>errorCode_of\<close> and
  \<open>headers_of\<close>.
  \<open>err\<close> is declared an \<open>Error\<close>, so it is an object. The comparisons \<open>===\<close> are all
  against string and number literals, where they coincide with equality of values.
  The power \<open>timeoutFactor ** (counter - 1)\<close> has an integer exponent, which is negative
  only for a counter below 1.
\<close>

definition statusCode_of :: "jsval \<Rightarrow> jsval" where
  "statusCode_of err =
     (if in_op ''statusCode'' err \<and> typeof (prop_of err ''statusCode'') = ''number''
      then prop_of err ''statusCode'' else JNull)"

definition errorCode_of :: "jsval \<Rightarrow> jsval" where
  "errorCode_of err = (if in_op ''code'' err then prop_of err ''code'' else JUndefined)"

definition headers_of :: "jsval \<Rightarrow> jsval" where
  "headers_of err =
     (if in_op ''headers'' err \<and> typeof (prop_of err ''headers'') = ''object''
      then prop_of err ''headers'' else JUndefined)"

definition retry :: "runtime \<Rightarrow> jsval \<Rightarrow> retry_state \<Rightarrow> dispatch_opts \<Rightarrow> retry_decision" where
  "retry rt err state opts =
     (let statusCode = statusCode_of err;
          errorCode = errorCode_of err;
          headers = headers_of err;
          counter' = counter state
      in if errorCode = JString ''ERR_UNESCAPED_CHARACTERS''
            \<or> prop_of err ''message'' = JString ''Request path contains unescaped characters''
            \<or> prop_of err ''name'' = JString ''AbortError''
         then Fail err
         else if errorCode \<noteq> JString ''UND_ERR_REQ_RETRY''
         then Fail err
         else
           (let method' = http_method opts;
                retryOptions' = retryOptions_or_default opts;
                maxRetries' = maxRetries_or_default retryOptions';
                minTimeout' = minTimeout_or_default retryOptions';
                maxTimeout' = maxTimeout_or_default retryOptions';
                timeoutFactor' = timeoutFactor_or_default retryOptions';
                methods' = methods_or_default retryOptions'
            in if of_int counter' > maxRetries'
               then Fail err
               else if (case methods' of
                          Methods_array ms \<Rightarrow> method' \<notin> set ms
                        | Methods_not_array \<Rightarrow> False)
               then Fail err
               else if statusCode \<noteq> JNull \<and> statusCode \<noteq> JUndefined
                       \<and> (statusCode = JNumber (Num 401)
                            \<or> statusCode = JNumber (Num 403)
                            \<or> statusCode = JNumber (Num 404)
                            \<or> statusCode = JNumber (Num 405))
               then Fail err
               else
                 (let retryAfter = retryAfter_value rt headers;
                      retryTimeout =
                        (if js_greater retryAfter (Num 0)
                         then Math_min retryAfter maxTimeout'
                         else Num (min (minTimeout' * power_int timeoutFactor' (counter' - 1))
                                       maxTimeout'))
                  in Retry_after retryTimeout)))"

text \<open>
  The options object passed to \<open>interceptors.retry\<close> at lines 26 to 28 (the callback
  itself is its third property).
\<close>

definition interceptor_retryOptions :: retry_options where
  "interceptor_retryOptions =
     \<lparr>maxRetries = Some 5, minTimeout = Some 10000, maxTimeout = None,
      timeoutFactor = None, methods = None\<rparr>"

section \<open>The fetch facade\<close>

text \<open>The properties of a \<open>Response\<close> that the program reads.\<close>

record response =
  status :: int
  ok :: bool
  statusText :: string
  url :: string

definition response_object :: "response \<Rightarrow> jsval" where
  "response_object res =
     JObject [(''status'', JNumber (Num (of_int (status res)))), (''ok'', JBool (ok res)),
              (''statusText'', JString (statusText res)), (''url'', JString (url res))]"

text \<open>
  \<open>new ResponseError(res)\<close>: \<open>super(res.statusText)\<close> sets the message, then the
  constructor sets \<open>name\<close> (the name of the class), \<open>res\<close>, \<open>code\<close>, \<open>statusCode\<close> and
  \<open>url\<close>. The stack trace is not modelled.
\<close>

definition ResponseError :: "response \<Rightarrow> jsval" where
  "ResponseError res =
     JObject [(''message'', JString (statusText res)),
              (''name'', JString ''ResponseError''),
              (''res'', response_object res),
              (''code'', JNumber (Num (of_int (status res)))),
              (''statusCode'', JNumber (Num (of_int (status res)))),
              (''url'', JString (url res))]"

text \<open>\<open>RequestInit\<close>: the program itself only sets \<open>headers\<close>.\<close>

record request_init =
  headers :: "(string \<times> string) list option"

definition defaultRequestInit :: request_init where
  "defaultRequestInit =
     \<lparr>headers = Some [(''User-Agent'', ''curl/8.9.1 (https://github.com/SukkaW/Surge)'')]\<rparr>"

text \<open>
  How an awaited call ends, the lines written by \<open>console.log\<close>, and what a call of
  \<open>fetchWithLog\<close> did: the calls of \<open>fetch\<close> it made, its console output and how it
  ended.
\<close>

datatype 'a completion = Returned 'a | Threw jsval

datatype log_line =
    Fetch_abort string
  | Fetch_fail string jsval jsval

record fetch_outcome =
  fetch_calls :: "(string \<times> request_init) list"
  console_log :: "log_line list"
  result :: "response completion"

text \<open>
  The \<open>TypeError\<close> that reading \<open>.name\<close> of \<open>null\<close> or \<open>undefined\<close> raises (its message
  depends on the engine).
\<close>

definition TypeError :: jsval where
  "TypeError = JObject [(''name'', JString ''TypeError'')]"

text \<open>
  \<open>fetchWithLog(url, opts = defaultRequestInit)\<close>. The first argument is what the
  awaited \<open>fetch\<close> of the dispatch pipeline does with a url and options; an omitted (or
  \<open>undefined\<close>) second argument of the source is \<open>None\<close>. The arguments of
  \<open>console.log\<close> are evaluated before it prints, so when \<open>(err as any).name\<close> raises
  nothing is printed and the \<open>TypeError\<close> leaves the catch block.
\<close>

definition fetchWithLog ::
  "(string \<Rightarrow> request_init \<Rightarrow> response completion) \<Rightarrow> string \<Rightarrow> request_init option
     \<Rightarrow> fetch_outcome" where
  "fetchWithLog fetch url' opts_arg =
     (let opts = (case opts_arg of None \<Rightarrow> defaultRequestInit | Some v \<Rightarrow> v);
          try_block =
            (case fetch url' opts of
               Threw e \<Rightarrow> Threw e
             | Returned res \<Rightarrow>
                 if status res \<ge> 400 then Threw (ResponseError res)
                 else if \<not> ok res \<and> status res \<noteq> 304 then Threw (ResponseError res)
                 else Returned res)
      in case try_block of
           Returned res \<Rightarrow>
             \<lparr>fetch_calls = [(url', opts)], console_log = [], result = Returned res\<rparr>
         | Threw err \<Rightarrow>
             if typeof err = ''object'' \<and> err \<noteq> JNull \<and> in_op ''name'' err
             then
               (if prop_of err ''name'' = JString ''AbortError''
                   \<or> (in_op ''digest'' err \<and> prop_of err ''digest'' = JString ''AbortError'')
                then \<lparr>fetch_calls = [(url', opts)], console_log = [Fetch_abort url'],
                       result = Threw err\<rparr>
                else \<lparr>fetch_calls = [(url', opts)], console_log = [], result = Threw err\<rparr>)
             else
               (if err = JNull \<or> err = JUndefined
                then \<lparr>fetch_calls = [(url', opts)], console_log = [], result = Threw TypeError\<rparr>
                else \<lparr>fetch_calls = [(url', opts)],
                       console_log = [Fetch_fail url' (prop_of err ''name'') err],
                       result = Threw err\<rparr>))"

section \<open>The retry loop around the callback\<close>

text \<open>
  Modelled from the spec: for a request that supplies no per-call \<open>retryOptions\<close> the
  dispatch pipeline hands the callback the options given to \<open>interceptors.retry\<close> (the
  system's global default). The code that does this is the library's interceptor, which
  is not among the sources; the spec's data model says that the default \<open>minTimeout\<close> is
  overridden by the global default and that per-call \<open>retryOptions\<close> override it in turn.
\<close>

definition opts_without_override :: "string \<Rightarrow> dispatch_opts" where
  "opts_without_override m =
     \<lparr>http_method = m, retryOptions = Some interceptor_retryOptions\<rparr>"

text \<open>
  Modelled from the spec: the loop of the dispatch pipeline that owns the
  \<open>RetryState\<close> of one logical request (the library's retry handler, not among the
  sources). By the spec's data model the counter is 1 on the first failure and is
  incremented on each retry; by steps 7 and 8 of the classifier a scheduled retry
  re-attempts the request and the callback is invoked again on the next failure, while
  a failure reported by the callback ends the request. \<open>net n\<close> is how the physical
  attempt number \<open>n + 1\<close> ends; the result is the number of physical attempts made and
  how the request ended.
\<close>

datatype 'r attempt_result = Succeeded 'r | Failed jsval

function logical_request ::
  "runtime \<Rightarrow> dispatch_opts \<Rightarrow> (nat \<Rightarrow> 'r attempt_result) \<Rightarrow> nat \<Rightarrow> nat \<times> 'r attempt_result" where
  "logical_request rt opts net n =
     (case net n of
        Succeeded r \<Rightarrow> (n + 1, Succeeded r)
      | Failed err \<Rightarrow>
          (case retry rt err \<lparr>counter = int n + 1\<rparr> opts of
             Fail e \<Rightarrow> (n + 1, Failed e)
           | Retry_after t \<Rightarrow> logical_request rt opts net (n + 1)))"
  by pat_completeness auto
termination
proof (relation "measure (\<lambda>(rt, opts, net, n).
          nat \<lfloor>maxRetries_or_default (retryOptions_or_default opts)\<rfloor> - n)")
  show "wf (measure (\<lambda>(rt, opts, net :: nat \<Rightarrow> 'r attempt_result, n).
          nat \<lfloor>maxRetries_or_default (retryOptions_or_default opts)\<rfloor> - n))"
    by simp
next
  fix rt opts and net :: "nat \<Rightarrow> 'r attempt_result" and n err t
  assume "retry rt err \<lparr>counter = int n + 1\<rparr> opts = Retry_after t"
  then have "of_int (int n + 1) \<le> maxRetries_or_default (retryOptions_or_default opts)"
    by (auto simp: retry_def Let_def split: if_splits)
  then have "int n + 1 \<le> \<lfloor>maxRetries_or_default (retryOptions_or_default opts)\<rfloor>"
    by (simp only: le_floor_iff)
  then show "((rt, opts, net, n + 1), (rt, opts, net, n)) \<in> measure (\<lambda>(rt, opts, net, n).
          nat \<lfloor>maxRetries_or_default (retryOptions_or_default opts)\<rfloor> - n)"
    by simp
qed

declare logical_request.simps [simp del]

section \<open>Example inputs\<close>

text \<open>
  A runtime that knows one number and one date, five seconds after its clock; an error
  as the connection layer raises it for a retryable response; an abort; a socket error;
  and requests with and without retry options.
\<close>

definition example_runtime :: runtime where
  "example_runtime =
     \<lparr>Number = (\<lambda>v. if v = JString ''2'' then Num 2 else NaN),
      Date_getTime =
        (\<lambda>v. if v = JString ''Wed, 21 Oct 2015 07:28:05 GMT'' then Num 1445412485000 else NaN),
      Date_now = 1445412480000\<rparr>"

definition example_retry_error :: "real \<Rightarrow> (string \<times> jsval) list \<Rightarrow> jsval" where
  "example_retry_error s hs =
     JObject [(''name'', JString ''RequestRetryError''),
              (''message'', JString ''Request failed''),
              (''code'', JString ''UND_ERR_REQ_RETRY''),
              (''statusCode'', JNumber (Num s)),
              (''headers'', JObject hs)]"

definition example_abort_error :: jsval where
  "example_abort_error =
     JObject [(''name'', JString ''AbortError''),
              (''message'', JString ''This operation was aborted''),
              (''code'', JNumber (Num 20))]"

definition example_reset_error :: jsval where
  "example_reset_error =
     JObject [(''name'', JString ''Error''),
              (''message'', JString ''read ECONNRESET''),
              (''code'', JString ''ECONNRESET'')]"

definition default_opts :: dispatch_opts where
  "default_opts = \<lparr>http_method = ''GET'', retryOptions = None\<rparr>"

definition example_opts :: dispatch_opts where
  "example_opts =
     \<lparr>http_method = ''GET'',
      retryOptions = Some \<lparr>maxRetries = Some 5, minTimeout = Some 10000, maxTimeout = Some 30000,
                            timeoutFactor = Some 2, methods = None\<rparr>\<rparr>"

definition example_response :: "int \<Rightarrow> bool \<Rightarrow> string \<Rightarrow> response" where
  "example_response s k t =
     \<lparr>status = s, ok = k, statusText = t, url = ''https://example.com/list.txt''\<rparr>"

text \<open>
  A \<open>fetch\<close> that answers 200 to the options it expects and 404 to any other, and
  options of a caller.
\<close>

definition example_fetch :: "request_init \<Rightarrow> string \<Rightarrow> request_init \<Rightarrow> response completion" where
  "example_fetch expected u i =
     (if i = expected then Returned (example_response 200 True ''OK'')
      else Returned (example_response 404 False ''Not Found''))"

definition example_init :: request_init where
  "example_init = \<lparr>headers = Some [(''Accept'', ''text/plain'')]\<rparr>"

section \<open>Basic facts\<close>

lemmas or_default_defs =
  retryOptions_or_default_def maxRetries_or_default_def minTimeout_or_default_def
  maxTimeout_or_default_def timeoutFactor_or_default_def methods_or_default_def

lemma prop_of_absent: "\<not> in_op k v \<Longrightarrow> prop_of v k = JUndefined"
  by (cases v) (auto split: option.splits)

lemma errorCode_of_prop: "errorCode_of err = prop_of err ''code''"
  by (simp add: errorCode_of_def prop_of_absent)

lemma statusCode_of_number:
  "prop_of err ''statusCode'' = JNumber n \<Longrightarrow> statusCode_of err = JNumber n"
  using prop_of_absent [of "''statusCode''" err] by (auto simp: statusCode_of_def)

lemma headers_of_retry_after:
  assumes "truthy (prop_of (prop_of err ''headers'') ''retry-after'')"
  shows "headers_of err = prop_of err ''headers''"
proof (cases "prop_of err ''headers''")
  case (JObject ps)
  then show ?thesis
    using prop_of_absent [of "''headers''" err] by (auto simp: headers_of_def)
qed (use assms in simp_all)

text \<open>
  The callback either fails with the error it was given or schedules a retry; it
  schedules one only for the retry code of the connection layer and a counter within
  the budget, and then the delay is the one of lines 94 to 97.
\<close>

lemma retry_cases:
  "retry rt err state opts = Fail err \<or> (\<exists>t. retry rt err state opts = Retry_after t)"
  by (simp add: retry_def Let_def)

lemma retry_scheduled:
  assumes "retry rt err state opts = Retry_after t"
  shows "errorCode_of err = JString ''UND_ERR_REQ_RETRY''"
    and "of_int (counter state) \<le> maxRetries_or_default (retryOptions_or_default opts)"
    and "t = (if js_greater (retryAfter_value rt (headers_of err)) (Num 0)
              then Math_min (retryAfter_value rt (headers_of err))
                     (maxTimeout_or_default (retryOptions_or_default opts))
              else Num (min (minTimeout_or_default (retryOptions_or_default opts)
                              * power_int (timeoutFactor_or_default (retryOptions_or_default opts))
                                  (counter state - 1))
                            (maxTimeout_or_default (retryOptions_or_default opts))))"
  using assms by (auto simp: retry_def Let_def split: if_splits)

text \<open>
  The retry loop makes at most one attempt more than the budget allows retries (and at
  least the attempt it starts with).
\<close>

lemma logical_request_attempts:
  "real (fst (logical_request rt opts net n)) \<le>
     max (real n + 1) (maxRetries_or_default (retryOptions_or_default opts) + 1)"
proof (induction rt opts net n rule: logical_request.induct)
  case (1 rt opts net n)
  show ?case
  proof (cases "net n")
    case (Succeeded r)
    then show ?thesis by (simp add: logical_request.simps [of rt opts net n])
  next
    case (Failed err)
    show ?thesis
    proof (cases "retry rt err \<lparr>counter = int n + 1\<rparr> opts")
      case (Fail e)
      with Failed show ?thesis by (simp add: logical_request.simps [of rt opts net n])
    next
      case (Retry_after t)
      then have le: "real n + 1 \<le> maxRetries_or_default (retryOptions_or_default opts)"
        using retry_scheduled(2) [OF Retry_after] by simp
      have "real (fst (logical_request rt opts net (n + 1))) \<le>
              max (real (n + 1) + 1) (maxRetries_or_default (retryOptions_or_default opts) + 1)"
        using "1.IH" [OF Failed Retry_after] .
      with le Failed Retry_after show ?thesis
        by (simp add: logical_request.simps [of rt opts net n])
    qed
  qed
qed

text \<open>The example error is retried five times with the default options, then fails.\<close>

lemma example_retry:
  "0 < n \<Longrightarrow> n \<le> 5 \<Longrightarrow>
   retry example_runtime (example_retry_error 503 []) \<lparr>counter = n\<rparr> default_opts
     = Retry_after (Num (min (500 * power_int 2 (n - 1)) 30000))"
  by (simp add: retry_def Let_def example_retry_error_def default_opts_def or_default_defs
      statusCode_of_def errorCode_of_def headers_of_def retryAfter_value_def)

lemma example_exhausted:
  "retry example_runtime (example_retry_error 503 []) \<lparr>counter = 6\<rparr> default_opts
     = Fail (example_retry_error 503 [])"
  by (simp add: retry_def Let_def example_retry_error_def default_opts_def or_default_defs
      errorCode_of_def)

lemma example_run:
  "fst (logical_request example_runtime default_opts
          (\<lambda>n. Failed (example_retry_error 503 []) :: unit attempt_result) 0) = 6"
  by (simp add: logical_request.simps [of _ _ _ 0] logical_request.simps [of _ _ _ "Suc n" for n]
      example_retry example_exhausted)

lemma ResponseError_props:
  "typeof (ResponseError res) = ''object''"
  "ResponseError res \<noteq> JNull"
  "ResponseError res \<noteq> JUndefined"
  "in_op ''name'' (ResponseError res)"
  "\<not> in_op ''digest'' (ResponseError res)"
  "prop_of (ResponseError res) ''name'' = JString ''ResponseError''"
  "prop_of (ResponseError res) ''message'' = JString (statusText res)"
  "prop_of (ResponseError res) ''code'' = JNumber (Num (of_int (status res)))"
  "prop_of (ResponseError res) ''statusCode'' = JNumber (Num (of_int (status res)))"
  "prop_of (ResponseError res) ''url'' = JString (url res)"
  "prop_of (ResponseError res) ''res'' = response_object res"
  by (simp_all add: ResponseError_def)

section \<open>The retry classifier\<close>

text \<open>
  Claim C1: when the error carries a numeric status code of 401, 403, 404 or 405, the
  callback calls its continuation with the error it was given and schedules no retry,
  whatever the counter and the options are (so also while the counter is within
  \<open>maxRetries\<close>).
\<close>

theorem retry_terminal_status:
  assumes "prop_of err ''statusCode'' = JNumber (Num s)"
    and "s = 401 \<or> s = 403 \<or> s = 404 \<or> s = 405"
  shows "retry rt err state opts = Fail err"
proof -
  have "statusCode_of err = JNumber (Num s)"
    using assms(1) by (rule statusCode_of_number)
  with assms(2) show ?thesis
    by (auto simp: retry_def Let_def)
qed

theorem retry_terminal_status_witness:
  "prop_of (example_retry_error 404 []) ''statusCode'' = JNumber (Num 404)
   \<and> real_of_int (counter \<lparr>counter = 1\<rparr>)
       \<le> maxRetries_or_default (retryOptions_or_default default_opts)
   \<and> retry example_runtime (example_retry_error 404 []) \<lparr>counter = 1\<rparr> default_opts
       = Fail (example_retry_error 404 [])"
proof -
  have p: "prop_of (example_retry_error 404 []) ''statusCode'' = JNumber (Num 404)"
    by (simp add: example_retry_error_def)
  from retry_terminal_status [OF p] show ?thesis
    by (simp add: p default_opts_def or_default_defs)
qed

text \<open>
  Claim C2: when the error has the code or the message of unescaped characters in the
  request path, or is an abort (its name is \<open>AbortError\<close>), or its code is not
  \<open>UND_ERR_REQ_RETRY\<close>, the callback fails at once with the error it was given and
  schedules no retry, whatever the counter and the options are.
\<close>

theorem retry_non_retriable_error:
  assumes "prop_of err ''code'' = JString ''ERR_UNESCAPED_CHARACTERS''
     \<or> prop_of err ''message'' = JString ''Request path contains unescaped characters''
     \<or> prop_of err ''name'' = JString ''AbortError''
     \<or> prop_of err ''code'' \<noteq> JString ''UND_ERR_REQ_RETRY''"
  shows "retry rt err state opts = Fail err"
  using assms unfolding retry_def Let_def errorCode_of_prop by auto

theorem retry_non_retriable_error_witness:
  "retry example_runtime example_abort_error \<lparr>counter = 1\<rparr> default_opts
     = Fail example_abort_error
   \<and> retry example_runtime example_reset_error \<lparr>counter = 1\<rparr> default_opts
     = Fail example_reset_error"
proof -
  have a: "prop_of example_abort_error ''name'' = JString ''AbortError''"
    by (simp add: example_abort_error_def)
  have b: "prop_of example_reset_error ''code'' \<noteq> JString ''UND_ERR_REQ_RETRY''"
    by (simp add: example_reset_error_def)
  show ?thesis
    using retry_non_retriable_error [of example_abort_error]
      retry_non_retriable_error [of example_reset_error] a b
    by blast
qed

text \<open>
  Claim C3: when the counter exceeds \<open>maxRetries\<close> (5 when the option is not given)
  the callback schedules no retry and fails with the error it was given; hence a
  logical request, whose counter is the number of its failed attempts, makes at most
  \<open>maxRetries + 1\<close> physical attempts (for a budget that is not negative: the first
  attempt is always made).
\<close>

theorem retry_budget:
  "(of_int (counter state) > maxRetries_or_default (retryOptions_or_default opts)
      \<longrightarrow> retry rt err state opts = Fail err)
   \<and> (maxRetries (retryOptions_or_default opts) = None
      \<longrightarrow> maxRetries_or_default (retryOptions_or_default opts) = 5)
   \<and> (0 \<le> maxRetries_or_default (retryOptions_or_default opts)
      \<longrightarrow> real (fst (logical_request rt opts net 0))
            \<le> maxRetries_or_default (retryOptions_or_default opts) + 1)"
proof (intro conjI impI)
  assume "of_int (counter state) > maxRetries_or_default (retryOptions_or_default opts)"
  then show "retry rt err state opts = Fail err"
    by (simp add: retry_def Let_def)
next
  assume "maxRetries (retryOptions_or_default opts) = None"
  then show "maxRetries_or_default (retryOptions_or_default opts) = 5"
    by (simp add: maxRetries_or_default_def)
next
  assume "0 \<le> maxRetries_or_default (retryOptions_or_default opts)"
  with logical_request_attempts [of rt opts net 0]
  show "real (fst (logical_request rt opts net 0))
          \<le> maxRetries_or_default (retryOptions_or_default opts) + 1"
    by simp
qed

theorem retry_budget_witness:
  "real_of_int (counter \<lparr>counter = 6\<rparr>)
     > maxRetries_or_default (retryOptions_or_default default_opts)
   \<and> retry example_runtime (example_retry_error 503 []) \<lparr>counter = 6\<rparr> default_opts
       = Fail (example_retry_error 503 [])
   \<and> maxRetries_or_default (retryOptions_or_default default_opts) = 5
   \<and> fst (logical_request example_runtime default_opts
          (\<lambda>n. Failed (example_retry_error 503 []) :: unit attempt_result) 0) = 6"
proof -
  let ?e = "example_retry_error 503 []"
  have m: "maxRetries_or_default (retryOptions_or_default default_opts) = 5"
    by (simp add: default_opts_def or_default_defs)
  then have gt: "real_of_int (counter \<lparr>counter = 6\<rparr>)
                   > maxRetries_or_default (retryOptions_or_default default_opts)"
    by simp
  from retry_budget [where state = "\<lparr>counter = 6\<rparr>" and opts = default_opts
      and rt = example_runtime and err = ?e] gt
  have "retry example_runtime ?e \<lparr>counter = 6\<rparr> default_opts = Fail ?e"
    by blast
  with gt m example_run show ?thesis by blast
qed

text \<open>
  Claim C7: when the method of the request is not in the configured array of methods
  (GET, HEAD, OPTIONS, PUT, DELETE and TRACE when the option is not given), the
  callback fails with the error it was given and schedules no retry, for every counter
  and so on the first failed attempt.
\<close>

theorem retry_method_not_listed:
  "(methods_or_default (retryOptions_or_default opts) = Methods_array ms
      \<and> http_method opts \<notin> set ms \<longrightarrow> retry rt err state opts = Fail err)
   \<and> (methods (retryOptions_or_default opts) = None \<longrightarrow>
        methods_or_default (retryOptions_or_default opts)
          = Methods_array [''GET'', ''HEAD'', ''OPTIONS'', ''PUT'', ''DELETE'', ''TRACE''])"
  by (auto simp: retry_def Let_def methods_or_default_def)

theorem retry_method_not_listed_witness:
  "methods_or_default (retryOptions_or_default \<lparr>http_method = ''POST'', retryOptions = None\<rparr>)
     = Methods_array [''GET'', ''HEAD'', ''OPTIONS'', ''PUT'', ''DELETE'', ''TRACE'']
   \<and> retry example_runtime (example_retry_error 503 []) \<lparr>counter = 1\<rparr>
        \<lparr>http_method = ''POST'', retryOptions = None\<rparr> = Fail (example_retry_error 503 [])"
  using retry_method_not_listed [where opts = "\<lparr>http_method = ''POST'', retryOptions = None\<rparr>"
      and ms = "[''GET'', ''HEAD'', ''OPTIONS'', ''PUT'', ''DELETE'', ''TRACE'']"
      and rt = example_runtime and err = "example_retry_error 503 []"
      and state = "\<lparr>counter = 1\<rparr>"]
  by (simp add: or_default_defs)

section \<open>The delay before a retry\<close>

text \<open>
  Claim C4: for a retried attempt whose error carries a \<open>retry-after\<close> header \<open>h\<close> (a
  value that is not empty): when \<open>Number(h)\<close> is a number the value is that number of
  seconds times 1000; when it is \<open>NaN\<close> the value is the date parsed from \<open>h\<close> minus
  the current time, in milliseconds; and whenever the value is positive the retry is
  scheduled after the smaller of the value and \<open>maxTimeout\<close>. A header of 2 seconds
  gives 2000 ms under any \<open>maxTimeout\<close> of at least 2000 ms.
\<close>

theorem retry_after_header_delay:
  assumes "retry rt err state opts = Retry_after t"
    and "prop_of (prop_of err ''headers'') ''retry-after'' = h"
    and "truthy h"
  shows "(\<forall>n. Number rt h = Num n \<longrightarrow> retryAfter_value rt (headers_of err) = Num (n * 1000))
     \<and> (Number rt h = NaN \<longrightarrow>
          retryAfter_value rt (headers_of err) = js_minus (Date_getTime rt h) (Num (Date_now rt)))
     \<and> (\<forall>d. retryAfter_value rt (headers_of err) = Num d \<and> 0 < d \<longrightarrow>
          t = Num (min d (maxTimeout_or_default (retryOptions_or_default opts))))
     \<and> (Number rt h = Num 2 \<and> 2000 \<le> maxTimeout_or_default (retryOptions_or_default opts)
          \<longrightarrow> t = Num 2000)"
proof -
  have hd: "headers_of err = prop_of err ''headers''"
    using assms(2,3) by (auto intro: headers_of_retry_after)
  have num: "retryAfter_value rt (headers_of err) = Num (n * 1000)" if "Number rt h = Num n" for n
    using that assms(2,3) by (simp add: retryAfter_value_def hd Let_def)
  have date: "retryAfter_value rt (headers_of err) = js_minus (Date_getTime rt h) (Num (Date_now rt))"
    if "Number rt h = NaN"
    using that assms(2,3) by (simp add: retryAfter_value_def hd Let_def calculateRetryAfterHeader_def)
  have pos: "t = Num (min d (maxTimeout_or_default (retryOptions_or_default opts)))"
    if "retryAfter_value rt (headers_of err) = Num d" and "0 < d" for d
    using retry_scheduled(3) [OF assms(1)] that by simp
  have two: "t = Num 2000"
    if "Number rt h = Num 2" and "2000 \<le> maxTimeout_or_default (retryOptions_or_default opts)"
    using pos [of 2000] num [OF that(1)] that(2) by simp
  show ?thesis using num date pos two by blast
qed

theorem retry_after_header_delay_witness:
  "retry example_runtime (example_retry_error 503 [(''retry-after'', JString ''2'')])
      \<lparr>counter = 1\<rparr> default_opts = Retry_after (Num 2000)
   \<and> retry example_runtime
        (example_retry_error 503 [(''retry-after'', JString ''Wed, 21 Oct 2015 07:28:05 GMT'')])
        \<lparr>counter = 1\<rparr> default_opts = Retry_after (Num 5000)"
proof -
  let ?e = "example_retry_error 503 [(''retry-after'', JString ''2'')]"
  let ?d = "example_retry_error 503 [(''retry-after'', JString ''Wed, 21 Oct 2015 07:28:05 GMT'')]"
  have max: "maxTimeout_or_default (retryOptions_or_default default_opts) = 30000"
    by (simp add: default_opts_def or_default_defs)
  have "\<exists>t. retry example_runtime ?e \<lparr>counter = 1\<rparr> default_opts = Retry_after t"
    by (simp add: retry_def Let_def example_retry_error_def default_opts_def or_default_defs
      statusCode_of_def errorCode_of_def)
  then obtain t1 where t1: "retry example_runtime ?e \<lparr>counter = 1\<rparr> default_opts = Retry_after t1" ..
  have h1: "prop_of (prop_of ?e ''headers'') ''retry-after'' = JString ''2''"
    by (simp add: example_retry_error_def)
  have "t1 = Num 2000"
    using retry_after_header_delay [OF t1 h1] max by (simp add: example_runtime_def)
  with t1 have r1: "retry example_runtime ?e \<lparr>counter = 1\<rparr> default_opts = Retry_after (Num 2000)"
    by simp
  have "\<exists>t. retry example_runtime ?d \<lparr>counter = 1\<rparr> default_opts = Retry_after t"
    by (simp add: retry_def Let_def example_retry_error_def default_opts_def or_default_defs
      statusCode_of_def errorCode_of_def)
  then obtain t2 where t2: "retry example_runtime ?d \<lparr>counter = 1\<rparr> default_opts = Retry_after t2" ..
  have h2: "prop_of (prop_of ?d ''headers'') ''retry-after''
              = JString ''Wed, 21 Oct 2015 07:28:05 GMT''"
    by (simp add: example_retry_error_def)
  have "retryAfter_value example_runtime (headers_of ?d) = Num 5000"
    using retry_after_header_delay [OF t2 h2] by (simp add: example_runtime_def)
  with retry_after_header_delay [OF t2 h2] max have "t2 = Num 5000"
    by simp
  with t2 r1 show ?thesis by simp
qed

text \<open>
  Claim C5: for a retried attempt whose \<open>retry-after\<close> value is not positive (no header
  among them), the delay is the smaller of
  \<open>minTimeout * timeoutFactor ** (counter - 1)\<close> and \<open>maxTimeout\<close>. With
  \<open>minTimeout = 10000\<close>, \<open>maxTimeout = 30000\<close> and \<open>timeoutFactor = 2\<close> the delay after
  the first failure (before attempt 2) is 10000 ms, after the second 20000 ms, and
  after the third and every later one 30000 ms.
\<close>

theorem retry_backoff_delay:
  assumes "retry rt err state opts = Retry_after t"
    and "\<not> js_greater (retryAfter_value rt (headers_of err)) (Num 0)"
  shows "t = Num (min (minTimeout_or_default (retryOptions_or_default opts)
                        * power_int (timeoutFactor_or_default (retryOptions_or_default opts))
                            (counter state - 1))
                      (maxTimeout_or_default (retryOptions_or_default opts)))
     \<and> (minTimeout_or_default (retryOptions_or_default opts) = 10000
          \<and> maxTimeout_or_default (retryOptions_or_default opts) = 30000
          \<and> timeoutFactor_or_default (retryOptions_or_default opts) = 2
        \<longrightarrow> (counter state = 1 \<longrightarrow> t = Num 10000)
          \<and> (counter state = 2 \<longrightarrow> t = Num 20000)
          \<and> (3 \<le> counter state \<longrightarrow> t = Num 30000))"
proof -
  let ?ro = "retryOptions_or_default opts"
  have t: "t = Num (min (minTimeout_or_default ?ro
                        * power_int (timeoutFactor_or_default ?ro) (counter state - 1))
                      (maxTimeout_or_default ?ro))"
    using retry_scheduled(3) [OF assms(1)] assms(2) by simp
  have big: "(30000 :: real) \<le> 10000 * power_int 2 (c - 1)" if "3 \<le> c" for c :: int
  proof -
    have "(2 :: real) ^ 2 \<le> 2 ^ nat (c - 1)"
      using that by (intro power_increasing) auto
    then show ?thesis using that by (simp add: power_int_def)
  qed
  show ?thesis using t big [of "counter state"] by (auto simp: min_def)
qed

theorem retry_backoff_delay_witness:
  "retry example_runtime (example_retry_error 503 []) \<lparr>counter = 1\<rparr> example_opts
     = Retry_after (Num 10000)
   \<and> retry example_runtime (example_retry_error 503 []) \<lparr>counter = 2\<rparr> example_opts
     = Retry_after (Num 20000)
   \<and> retry example_runtime (example_retry_error 503 []) \<lparr>counter = 3\<rparr> example_opts
     = Retry_after (Num 30000)
   \<and> retry example_runtime (example_retry_error 503 []) \<lparr>counter = 5\<rparr> example_opts
     = Retry_after (Num 30000)"
proof -
  let ?e = "example_retry_error 503 []"
  have ex: "\<exists>t. retry example_runtime ?e \<lparr>counter = c\<rparr> example_opts = Retry_after t"
    if "c \<le> 5" for c
    using that
    by (simp add: retry_def Let_def example_retry_error_def example_opts_def or_default_defs
      statusCode_of_def errorCode_of_def)
  have no: "\<not> js_greater (retryAfter_value example_runtime (headers_of ?e)) (Num 0)"
    by (simp add: example_retry_error_def headers_of_def retryAfter_value_def)
  have cfg: "minTimeout_or_default (retryOptions_or_default example_opts) = 10000"
    "maxTimeout_or_default (retryOptions_or_default example_opts) = 30000"
    "timeoutFactor_or_default (retryOptions_or_default example_opts) = 2"
    by (simp_all add: example_opts_def or_default_defs)
  have v: "retry example_runtime ?e \<lparr>counter = c\<rparr> example_opts
             = Retry_after (Num (if c = 1 then 10000 else if c = 2 then 20000 else 30000))"
    if "1 \<le> c" "c \<le> 5" for c
  proof -
    from ex [OF that(2)] obtain t
      where t: "retry example_runtime ?e \<lparr>counter = c\<rparr> example_opts = Retry_after t" ..
    from retry_backoff_delay [OF t no] cfg that(1)
    have "t = Num (if c = 1 then 10000 else if c = 2 then 20000 else 30000)"
      by (cases "c = 1"; cases "c = 2") auto
    with t show ?thesis by simp
  qed
  show ?thesis using v [of 1] v [of 2] v [of 3] v [of 5] by simp
qed

text \<open>
  Claim C6: the callback's own default for \<open>minTimeout\<close> is 500 ms; the options given
  to \<open>interceptors.retry\<close> set it to 10000 ms; and for a request without per-call
  \<open>retryOptions\<close>, which reaches the callback with those options, the backoff is
  computed from \<open>minTimeout = 10000\<close> (with the default factor 2 and \<open>maxTimeout\<close> of
  30000 ms).
\<close>

theorem global_minTimeout_override:
  "minTimeout_or_default (retryOptions_or_default \<lparr>http_method = m, retryOptions = None\<rparr>) = 500
   \<and> minTimeout interceptor_retryOptions = Some 10000
   \<and> minTimeout_or_default (retryOptions_or_default (opts_without_override m)) = 10000
   \<and> (retry rt err state (opts_without_override m) = Retry_after t
        \<and> \<not> js_greater (retryAfter_value rt (headers_of err)) (Num 0)
      \<longrightarrow> t = Num (min (10000 * power_int 2 (counter state - 1)) 30000))"
proof (intro conjI impI)
  assume a: "retry rt err state (opts_without_override m) = Retry_after t
        \<and> \<not> js_greater (retryAfter_value rt (headers_of err)) (Num 0)"
  from retry_scheduled(3) [of rt err state "opts_without_override m" t] a
  show "t = Num (min (10000 * power_int 2 (counter state - 1)) 30000)"
    by (simp add: opts_without_override_def interceptor_retryOptions_def or_default_defs)
qed (simp_all add: opts_without_override_def interceptor_retryOptions_def or_default_defs)

theorem global_minTimeout_override_witness:
  "retry example_runtime (example_retry_error 503 []) \<lparr>counter = 1\<rparr>
      (opts_without_override ''GET'') = Retry_after (Num 10000)"
proof -
  let ?e = "example_retry_error 503 []"
  have "\<exists>t. retry example_runtime ?e \<lparr>counter = 1\<rparr> (opts_without_override ''GET'')
              = Retry_after t"
    by (simp add: retry_def Let_def example_retry_error_def opts_without_override_def
      interceptor_retryOptions_def or_default_defs statusCode_of_def errorCode_of_def)
  then obtain t
    where t: "retry example_runtime ?e \<lparr>counter = 1\<rparr> (opts_without_override ''GET'')
                = Retry_after t" ..
  have no: "\<not> js_greater (retryAfter_value example_runtime (headers_of ?e)) (Num 0)"
    by (simp add: example_retry_error_def headers_of_def retryAfter_value_def)
  from global_minTimeout_override [of "''GET''" example_runtime ?e "\<lparr>counter = 1\<rparr>" t] t no
  have "t = Num 10000"
    by simp
  with t show ?thesis by simp
qed

section \<open>The fetch facade\<close>

text \<open>
  Claim C8: for a fetched response, \<open>fetchWithLog\<close> throws a \<open>ResponseError\<close> exactly
  when the status is at least 400 or the response is not ok and its status is not 304,
  and returns the response otherwise (so a 304 is returned); the error carries the
  status as \<open>code\<close> and as \<open>statusCode\<close>, the url of the response, and the status text
  as its message.
\<close>

theorem fetchWithLog_response:
  assumes "fetch u (case opts_arg of None \<Rightarrow> defaultRequestInit | Some v \<Rightarrow> v) = Returned res"
  shows "result (fetchWithLog fetch u opts_arg) =
           (if 400 \<le> status res \<or> (\<not> ok res \<and> status res \<noteq> 304)
            then Threw (ResponseError res) else Returned res)
     \<and> (status res = 304 \<longrightarrow> result (fetchWithLog fetch u opts_arg) = Returned res)
     \<and> prop_of (ResponseError res) ''code'' = JNumber (Num (of_int (status res)))
     \<and> prop_of (ResponseError res) ''statusCode'' = JNumber (Num (of_int (status res)))
     \<and> prop_of (ResponseError res) ''url'' = JString (url res)
     \<and> prop_of (ResponseError res) ''message'' = JString (statusText res)"
proof -
  have r: "result (fetchWithLog fetch u opts_arg) =
           (if 400 \<le> status res \<or> (\<not> ok res \<and> status res \<noteq> 304)
            then Threw (ResponseError res) else Returned res)"
    using assms by (simp add: fetchWithLog_def Let_def ResponseError_props)
  then have "status res = 304 \<longrightarrow> result (fetchWithLog fetch u opts_arg) = Returned res"
    by simp
  with r show ?thesis by (simp only: ResponseError_props simp_thms)
qed

theorem fetchWithLog_response_witness:
  "result (fetchWithLog (\<lambda>u i. Returned (example_response 404 False ''Not Found''))
             ''https://example.com/list.txt'' None)
     = Threw (ResponseError (example_response 404 False ''Not Found''))
   \<and> result (fetchWithLog (\<lambda>u i. Returned (example_response 304 False ''Not Modified''))
             ''https://example.com/list.txt'' None)
     = Returned (example_response 304 False ''Not Modified'')
   \<and> result (fetchWithLog (\<lambda>u i. Returned (example_response 301 False ''Moved Permanently''))
             ''https://example.com/list.txt'' None)
     = Threw (ResponseError (example_response 301 False ''Moved Permanently''))
   \<and> result (fetchWithLog (\<lambda>u i. Returned (example_response 200 True ''OK''))
             ''https://example.com/list.txt'' None)
     = Returned (example_response 200 True ''OK'')"
  using fetchWithLog_response [of "\<lambda>u i. Returned (example_response 404 False ''Not Found'')" _ None
              "example_response 404 False ''Not Found''"]
    fetchWithLog_response [of "\<lambda>u i. Returned (example_response 304 False ''Not Modified'')" _ None
              "example_response 304 False ''Not Modified''"]
    fetchWithLog_response [of "\<lambda>u i. Returned (example_response 301 False ''Moved Permanently'')" _ None
              "example_response 301 False ''Moved Permanently''"]
    fetchWithLog_response [of "\<lambda>u i. Returned (example_response 200 True ''OK'')" _ None
              "example_response 200 True ''OK''"]
  by (simp add: example_response_def)

text \<open>
  Claim C10: an options argument that is given is what \<open>fetch\<close> is called with, and
  \<open>defaultRequestInit\<close>, which holds the \<open>User-Agent\<close> header, is what it is called with
  only when the argument is omitted; nothing of it is merged into the caller's options.
  Stated on the call: the outcome depends on \<open>fetch\<close> only through its value at the url
  and the caller's options (at the url and \<open>defaultRequestInit\<close> when the argument is
  omitted), and a successful response of that call is what \<open>fetchWithLog\<close> returns.
\<close>

theorem fetchWithLog_options:
  "(fetch u opts = fetch' u opts
      \<longrightarrow> fetchWithLog fetch u (Some opts) = fetchWithLog fetch' u (Some opts))
   \<and> (fetch u defaultRequestInit = fetch' u defaultRequestInit
      \<longrightarrow> fetchWithLog fetch u None = fetchWithLog fetch' u None)
   \<and> (fetch u opts = Returned res \<and> status res < 400 \<and> ok res
      \<longrightarrow> result (fetchWithLog fetch u (Some opts)) = Returned res)
   \<and> (fetch u defaultRequestInit = Returned res \<and> status res < 400 \<and> ok res
      \<longrightarrow> result (fetchWithLog fetch u None) = Returned res)
   \<and> fetch_calls (fetchWithLog fetch u (Some opts)) = [(u, opts)]
   \<and> fetch_calls (fetchWithLog fetch u None) = [(u, defaultRequestInit)]
   \<and> headers defaultRequestInit
       = Some [(''User-Agent'', ''curl/8.9.1 (https://github.com/SukkaW/Surge)'')]"
proof -
  have same: "fetchWithLog fetch u a = fetchWithLog fetch' u a"
    if "fetch u (case a of None \<Rightarrow> defaultRequestInit | Some v \<Rightarrow> v)
          = fetch' u (case a of None \<Rightarrow> defaultRequestInit | Some v \<Rightarrow> v)" for a
    using that by (simp add: fetchWithLog_def Let_def)
  have ret: "result (fetchWithLog fetch u a) = Returned res"
    if "fetch u (case a of None \<Rightarrow> defaultRequestInit | Some v \<Rightarrow> v) = Returned res"
      and "status res < 400" and "ok res" for a
    using that by (simp add: fetchWithLog_def Let_def)
  have calls: "fetch_calls (fetchWithLog fetch u a)
                 = [(u, case a of None \<Rightarrow> defaultRequestInit | Some v \<Rightarrow> v)]" for a
    by (cases "fetch u (case a of None \<Rightarrow> defaultRequestInit | Some v \<Rightarrow> v)")
       (simp_all add: fetchWithLog_def Let_def)
  have ua: "headers defaultRequestInit
       = Some [(''User-Agent'', ''curl/8.9.1 (https://github.com/SukkaW/Surge)'')]"
    by (simp add: defaultRequestInit_def)
  show ?thesis
    using same [of "Some opts"] same [of None] ret [of "Some opts"] ret [of None]
      calls [of "Some opts"] calls [of None] ua
    by simp
qed

theorem fetchWithLog_options_witness:
  "result (fetchWithLog (example_fetch example_init) ''https://example.com/list.txt''
             (Some example_init))
     = Returned (example_response 200 True ''OK'')
   \<and> result (fetchWithLog (example_fetch defaultRequestInit) ''https://example.com/list.txt'' None)
     = Returned (example_response 200 True ''OK'')
   \<and> fetchWithLog (example_fetch example_init) ''https://example.com/list.txt'' (Some example_init)
     = fetchWithLog (\<lambda>u i. Returned (example_response 200 True ''OK''))
         ''https://example.com/list.txt'' (Some example_init)
   \<and> fetchWithLog (example_fetch defaultRequestInit) ''https://example.com/list.txt'' None
     = fetchWithLog (\<lambda>u i. Returned (example_response 200 True ''OK''))
         ''https://example.com/list.txt'' None
   \<and> result (fetchWithLog (example_fetch defaultRequestInit) ''https://example.com/list.txt''
             (Some example_init))
     = Threw (ResponseError (example_response 404 False ''Not Found''))"
proof -
  let ?u = "''https://example.com/list.txt''"
  let ?ok = "example_response 200 True ''OK''"
  have ne: "example_init \<noteq> defaultRequestInit"
    by (simp add: example_init_def defaultRequestInit_def)
  have st: "status ?ok < 400" "ok ?ok"
    by (simp_all add: example_response_def)
  have a: "example_fetch example_init ?u example_init = Returned ?ok"
    "example_fetch defaultRequestInit ?u defaultRequestInit = Returned ?ok"
    by (simp_all add: example_fetch_def)
  have other: "result (fetchWithLog (example_fetch defaultRequestInit) ?u (Some example_init))
     = Threw (ResponseError (example_response 404 False ''Not Found''))"
    using ne by (simp add: fetchWithLog_def Let_def example_fetch_def ResponseError_props
        example_response_def)
  note t1 = fetchWithLog_options [of "example_fetch example_init" ?u example_init "\<lambda>u i. Returned ?ok" ?ok]
  note t2 = fetchWithLog_options [of "example_fetch defaultRequestInit" ?u example_init "\<lambda>u i. Returned ?ok" ?ok]
  have r1: "result (fetchWithLog (example_fetch example_init) ?u (Some example_init)) = Returned ?ok"
    using t1 a(1) st by blast
  have r2: "result (fetchWithLog (example_fetch defaultRequestInit) ?u None) = Returned ?ok"
    using t2 a(2) st by blast
  have e1: "fetchWithLog (example_fetch example_init) ?u (Some example_init)
              = fetchWithLog (\<lambda>u i. Returned ?ok) ?u (Some example_init)"
    using t1 a(1) by blast
  have e2: "fetchWithLog (example_fetch defaultRequestInit) ?u None
              = fetchWithLog (\<lambda>u i. Returned ?ok) ?u None"
    using t2 a(2) by blast
  from r1 r2 e1 e2 other show ?thesis by blast
qed

text \<open>
  What the catch block does with an error raised by \<open>fetch\<close>: every error other than
  \<open>null\<close> and \<open>undefined\<close> is thrown again as it is, and an error whose name is
  \<open>AbortError\<close> is logged as an abort.
\<close>

lemma fetchWithLog_rethrows:
  assumes "fetch u (case opts_arg of None \<Rightarrow> defaultRequestInit | Some v \<Rightarrow> v) = Threw e"
    and "e \<noteq> JNull" and "e \<noteq> JUndefined"
  shows "result (fetchWithLog fetch u opts_arg) = Threw e"
  using assms by (simp add: fetchWithLog_def Let_def)

lemma fetchWithLog_abort_logged:
  assumes "fetch u (case opts_arg of None \<Rightarrow> defaultRequestInit | Some v \<Rightarrow> v) = Threw (JObject ps)"
    and "map_of ps ''name'' = Some (JString ''AbortError'')"
  shows "console_log (fetchWithLog fetch u opts_arg) = [Fetch_abort u]"
  using assms by (simp add: fetchWithLog_def Let_def)

text \<open>
  Claim C9: every error thrown inside \<open>fetchWithLog\<close>, a \<open>ResponseError\<close> included, is
  logged and thrown again. The code does not log a \<open>ResponseError\<close>: for a response
  with status 500, and for one with status 404 (which the retry callback never
  retries), the error is thrown again and the console stays empty, because the
  branch that prints the failure belongs to the test that the error is an object with
  a name, not to the test for an abort.
\<close>

theorem fetchWithLog_ResponseError_not_logged:
  "fetchWithLog (\<lambda>u i. Returned (example_response 500 False ''Internal Server Error''))
      ''https://example.com/list.txt'' None
   = \<lparr>fetch_calls = [(''https://example.com/list.txt'', defaultRequestInit)],
      console_log = [],
      result = Threw (ResponseError (example_response 500 False ''Internal Server Error''))\<rparr>
   \<and> fetchWithLog (\<lambda>u i. Returned (example_response 404 False ''Not Found''))
      ''https://example.com/list.txt'' None
   = \<lparr>fetch_calls = [(''https://example.com/list.txt'', defaultRequestInit)],
      console_log = [],
      result = Threw (ResponseError (example_response 404 False ''Not Found''))\<rparr>"
  by (simp add: fetchWithLog_def Let_def ResponseError_props example_response_def)

end
